theory Spec2Isabelle
  imports Main "HOL-Library.Word" "HOL-Library.Sublist"
begin

section \<open>Go integers and run-time panics\<close>

text \<open>
  The demos are Go functions whose failures are either run-time panics of the Go
  runtime (integer division by zero, index out of range), explicit \<open>panic(...)\<close>
  calls, or \<open>logrus.Fatalf\<close> calls that end the process. Each of them is a value
  of \<open>panic\<close>; a function that can fail returns \<open>panic + 'a\<close>.
\<close>

datatype panic =
    DivideByZero
  | IndexOutOfRange int nat
  | NoDevices
  | EnqueueFailed
  | FinishFailed

text \<open>Go's \<open>/\<close> and \<open>%\<close> on \<open>int\<close> truncate towards zero.\<close>

definition go_quot :: "int \<Rightarrow> int \<Rightarrow> int" where
  "go_quot a b = sgn a * sgn b * (\<bar>a\<bar> div \<bar>b\<bar>)"

definition go_rem :: "int \<Rightarrow> int \<Rightarrow> int" where
  "go_rem a b = a - b * go_quot a b"

text \<open>Go's \<open>int\<close> is 64 bits wide on the supported platforms: two's complement wrap.\<close>

definition wrap64 :: "int \<Rightarrow> int" where
  "wrap64 x = (x + 2 ^ 63) mod 2 ^ 64 - 2 ^ 63"

section \<open>Work partitioner: padding of the global size\<close>

text \<open>
  Structs (part\_000, lines 161--166) and Vectors (part\_002, lines 169--174):
  \<^verbatim>\<open>
    global := len(input1)
    d := global % local
    if d != 0 {
        global += local - d
    }
  \<close>
  \<open>global\<close>, \<open>local\<close> and \<open>d\<close> are Go \<open>int\<close>s: the difference \<open>local - d\<close> and
  the sum \<open>global + (local - d)\<close> wrap at 64 bits. \<open>global % local\<close> panics when
  \<open>local\<close> is zero.
\<close>

definition pad_global :: "int \<Rightarrow> int \<Rightarrow> panic + int" where
  "pad_global problemSize local =
     (if local = 0 then Inl DivideByZero
      else
        let global = problemSize;
            d = go_rem global local
        in if d \<noteq> 0 then Inr (wrap64 (global + wrap64 (local - d))) else Inr global)"

section \<open>Device selection\<close>

text \<open>
  What the demos read of a \<open>cl.Device\<close>: its name, \<open>MaxWorkGroupSize()\<close>,
  \<open>MaxWorkItemSizes()\<close> and \<open>Extensions()\<close>. The values come from the OpenCL
  platform and are inputs of every demo.
\<close>

record Device =
  Name :: string
  MaxWorkGroupSize :: int
  MaxWorkItemSizes :: "int list"
  Extensions :: string

text \<open>Indexing a Go slice: the runtime panics outside \<open>0 \<le> i < len(xs)\<close>.\<close>

definition index :: "'a list \<Rightarrow> int \<Rightarrow> panic + 'a" where
  "index xs i =
     (if 0 \<le> i \<and> i < int (length xs) then Inr (xs ! nat i)
      else Inl (IndexOutOfRange i (length xs)))"

text \<open>
  Benchmark (benchmark.go, lines 28--40), SquareLocalSize (part\_001, lines 30--42),
  BatchedSquare (part\_002, lines 228--240) and MultiDim (part\_003, lines 33--45) share
  one shape:
  \<^verbatim>\<open>
    if len(devices) == 0 { panic("GetDevices returned no devices") }
    ...
    context, _ := cl.CreateContext([]*cl.Device{devices[deviceIndex]})
  \<close>
\<close>

definition Benchmark_device :: "Device list \<Rightarrow> int \<Rightarrow> panic + Device" where
  "Benchmark_device devices deviceIndex =
     (if length devices = 0 then Inl NoDevices else index devices deviceIndex)"

definition SquareLocalSize_device :: "Device list \<Rightarrow> int \<Rightarrow> panic + Device" where
  "SquareLocalSize_device devices deviceIndex =
     (if length devices = 0 then Inl NoDevices else index devices deviceIndex)"

definition BatchedSquare_device :: "Device list \<Rightarrow> int \<Rightarrow> panic + Device" where
  "BatchedSquare_device devices deviceIndex =
     (if length devices = 0 then Inl NoDevices else index devices deviceIndex)"

definition MultiDim_device :: "Device list \<Rightarrow> int \<Rightarrow> panic + Device" where
  "MultiDim_device devices deviceIndex =
     (if length devices = 0 then Inl NoDevices else index devices deviceIndex)"

text \<open>
  Structs (part\_000, lines 69--75) and Vectors (part\_002, lines 60--67):
  \<^verbatim>\<open>
    if len(devices) == 0 { logrus.Fatalf("GetDevices returned no devices") }
    if deviceIndex < 0 { deviceIndex = 0 }
    device := devices[deviceIndex]
  \<close>
\<close>

definition Structs_device :: "Device list \<Rightarrow> int \<Rightarrow> panic + Device" where
  "Structs_device devices deviceIndex =
     (if length devices = 0 then Inl NoDevices
      else
        let deviceIndex = (if deviceIndex < 0 then 0 else deviceIndex)
        in index devices deviceIndex)"

definition Vectors_device :: "Device list \<Rightarrow> int \<Rightarrow> panic + Device" where
  "Vectors_device devices deviceIndex =
     (if length devices = 0 then Inl NoDevices
      else
        let deviceIndex = (if deviceIndex < 0 then 0 else deviceIndex)
        in index devices deviceIndex)"

text \<open>Two devices used as concrete inputs below.\<close>

definition cpu :: Device where
  "cpu = \<lparr>Name = ''CPU'', MaxWorkGroupSize = 1024, MaxWorkItemSizes = [1024, 1, 1],
          Extensions = ''cl_khr_fp64 cl_khr_byte_addressable_store''\<rparr>"

definition gpu :: Device where
  "gpu = \<lparr>Name = ''GPU'', MaxWorkGroupSize = 512, MaxWorkItemSizes = [512, 512, 512],
          Extensions = ''cl_khr_byte_addressable_store''\<rparr>"

section \<open>Buffers and transfers\<close>

text \<open>
  One \<open>EnqueueWriteBuffer\<close> or \<open>EnqueueReadBuffer\<close> call: the byte size the target
  buffer was created with (\<open>CreateEmptyBuffer\<close>), the byte offset and the byte length
  of the transfer.
\<close>

datatype direction = Upload | Download

record Transfer =
  direction :: direction
  bufferBytes :: int
  offsetBytes :: int
  lengthBytes :: int

definition in_bounds :: "Transfer \<Rightarrow> bool" where
  "in_bounds t = (0 \<le> offsetBytes t \<and> offsetBytes t + lengthBytes t \<le> bufferBytes t)"

text \<open>\<open>unsafe.Sizeof\<close> of the element types the demos transfer.\<close>

definition sizeof_float32 :: int where "sizeof_float32 = 4"
definition sizeof_int32 :: int where "sizeof_int32 = 4"
definition sizeof_float64 :: int where "sizeof_float64 = 8"

text \<open>
  Benchmark (benchmark.go): \<open>elems := 1024\<close>, \<open>numbers\<close> has \<open>elems * elems\<close>
  elements, both buffers are created with \<open>4*len(numbers)\<close> bytes (lines 72, 80), the
  upload has \<open>Sizeof(numbers[0]) * len(numbers)\<close> bytes (lines 94--95) and the download
  \<open>Sizeof(results[0]) * len(results)\<close> bytes with \<open>len(results) = len(numbers)\<close>
  (lines 153--158).
\<close>

definition Benchmark_transfers :: "Transfer list" where
  "Benchmark_transfers =
     (let elems = 1024;
          len_numbers = elems * elems;
          inputBuffer = 4 * len_numbers;
          outputBuffer = 4 * len_numbers;
          len_results = len_numbers
      in [\<lparr>direction = Upload, bufferBytes = inputBuffer, offsetBytes = 0,
            lengthBytes = sizeof_float32 * len_numbers\<rparr>,
          \<lparr>direction = Download, bufferBytes = outputBuffer, offsetBytes = 0,
            lengthBytes = sizeof_float32 * len_results\<rparr>])"

text \<open>
  Structs (part\_000): \<open>input1\<close> gets \<open>wgSize = 256\<close> elements (lines 43--53);
  \<open>ss := nextPowOf2(int(sx))\<close> (line 56) is computed by a helper that is not among the
  sources, so \<open>ss\<close> is a parameter. The input buffer has \<open>ss*len(input1)\<close> bytes
  (line 125) and the upload the same (line 140); the output buffer has
  \<open>len(input1)*8\<close> bytes (line 131) and the download reads
  \<open>Sizeof(int32) * (len(input1)/2)\<close> bytes (lines 184--189).
\<close>

definition Structs_transfers :: "int \<Rightarrow> Transfer list" where
  "Structs_transfers ss =
     (let wgSize = 256;
          len_input1 = wgSize;
          param1 = ss * len_input1;
          output = len_input1 * 8;
          dataSize = ss * len_input1;
          len_results = go_quot len_input1 2
      in [\<lparr>direction = Upload, bufferBytes = param1, offsetBytes = 0,
            lengthBytes = dataSize\<rparr>,
          \<lparr>direction = Download, bufferBytes = output, offsetBytes = 0,
            lengthBytes = sizeof_int32 * len_results\<rparr>])"

text \<open>SquareLocalSize (part\_001, lines 64--99 and 125--132): 64 \<open>int32\<close> elements.\<close>

definition SquareLocalSize_transfers :: "Transfer list" where
  "SquareLocalSize_transfers =
     (let elemCount = 64;
          len_numbers = elemCount;
          inputBuffer = 4 * len_numbers;
          outputBuffer = 4 * len_numbers;
          len_results = len_numbers
      in [\<lparr>direction = Upload, bufferBytes = inputBuffer, offsetBytes = 0,
            lengthBytes = sizeof_int32 * len_numbers\<rparr>,
          \<lparr>direction = Download, bufferBytes = outputBuffer, offsetBytes = 0,
            lengthBytes = sizeof_int32 * len_results\<rparr>])"

text \<open>
  Vectors (part\_002, lines 35--48, 124--151 and 188--195): \<open>vectors1\<close> has
  \<open>64 * 4\<close> and \<open>matrices\<close> \<open>64 * 16\<close> \<open>float64\<close> elements.
\<close>

definition Vectors_transfers :: "Transfer list" where
  "Vectors_transfers =
     (let len_vectors1 = 64 * 4;
          len_matrices = 64 * 16;
          inputVector1 = 8 * len_vectors1;
          inputMatrix2 = 8 * len_matrices;
          output = 8 * len_vectors1;
          len_results = len_vectors1
      in [\<lparr>direction = Upload, bufferBytes = inputVector1, offsetBytes = 0,
            lengthBytes = sizeof_float64 * len_vectors1\<rparr>,
          \<lparr>direction = Upload, bufferBytes = inputMatrix2, offsetBytes = 0,
            lengthBytes = sizeof_float64 * len_matrices\<rparr>,
          \<lparr>direction = Download, bufferBytes = output, offsetBytes = 0,
            lengthBytes = sizeof_float64 * len_results\<rparr>])"

text \<open>BatchedSquare (part\_002, lines 262--297 and 343--350): 16777216 \<open>int32\<close> elements.\<close>

definition BatchedSquare_transfers :: "Transfer list" where
  "BatchedSquare_transfers =
     (let elemCount = 16777216;
          len_numbers = elemCount;
          inputBuffer = 4 * len_numbers;
          outputBuffer = 4 * len_numbers;
          len_results = len_numbers
      in [\<lparr>direction = Upload, bufferBytes = inputBuffer, offsetBytes = 0,
            lengthBytes = sizeof_int32 * len_numbers\<rparr>,
          \<lparr>direction = Download, bufferBytes = outputBuffer, offsetBytes = 0,
            lengthBytes = sizeof_int32 * len_results\<rparr>])"

text \<open>MultiDim (part\_003, lines 67--109 and 149--156): \<open>4 * 4\<close> \<open>float32\<close> elements.\<close>

definition MultiDim_transfers :: "Transfer list" where
  "MultiDim_transfers =
     (let elems = 4;
          len_numbers = elems * elems;
          inputBuffer = 4 * len_numbers;
          outputBuffer = 4 * len_numbers;
          len_results = len_numbers
      in [\<lparr>direction = Upload, bufferBytes = inputBuffer, offsetBytes = 0,
            lengthBytes = sizeof_float32 * len_numbers\<rparr>,
          \<lparr>direction = Download, bufferBytes = outputBuffer, offsetBytes = 0,
            lengthBytes = sizeof_float32 * len_results\<rparr>])"

section \<open>Work geometry, the command queue and the clock\<close>

text \<open>
  The geometry handed to \<open>EnqueueNDRangeKernel\<close>: the global work size and the local
  work size, one entry per dimension; \<open>nil\<close> for the local size is \<open>None\<close>.
\<close>

record WorkGeometry =
  globalWorkSize :: "int list"
  localWorkSize :: "int list option"

text \<open>
  The OpenCL runtime is outside the repository. What a driver sees of one
  \<open>EnqueueNDRangeKernel\<close> followed by \<open>queue.Finish()\<close> is whether either call
  returned an error and how much wall-clock time passed until \<open>Finish\<close> returned, in
  nanoseconds. A \<open>runtime\<close> gives that answer for the \<open>k\<close>-th enqueue of a run and
  its geometry; every theorem below holds for all runtimes unless it names one.
\<close>

datatype outcome = Completed int | EnqueueError | FinishError

type_synonym runtime = "nat \<Rightarrow> WorkGeometry \<Rightarrow> outcome"

text \<open>
  The state of a driver: the wall clock read by \<open>time.Now()\<close> (nanoseconds), every
  geometry handed to \<open>EnqueueNDRangeKernel\<close> so far, and the measurement rows printed
  so far (local size, reported duration in microseconds). A panic ends the run and
  keeps the state it was raised in.
\<close>

record Host =
  clock :: int
  enqueued :: "WorkGeometry list"
  rows :: "(int \<times> int) list"

definition host0 :: Host where
  "host0 = \<lparr>clock = 0, enqueued = [], rows = []\<rparr>"

definition final :: "(panic \<times> Host) + Host \<Rightarrow> Host" where
  "final r = (case r of Inl (e, h) \<Rightarrow> h | Inr h \<Rightarrow> h)"

text \<open>\<open>Duration.Microseconds()\<close>: the nanoseconds divided by 1000, truncated.\<close>

definition Microseconds :: "int \<Rightarrow> int" where
  "Microseconds ns = go_quot ns 1000"

text \<open>
  \<^verbatim>\<open>
    if _, err := queue.EnqueueNDRangeKernel(kernel, nil, global, local, nil); err != nil {
        panic("EnqueueNDRangeKernel failed: " + err.Error())
    }
    if err := queue.Finish(); err != nil {
        panic("Finish failed: %" + err.Error())
    }
  \<close>
\<close>

definition dispatch :: "runtime \<Rightarrow> WorkGeometry \<Rightarrow> Host \<Rightarrow> (panic \<times> Host) + Host" where
  "dispatch rt g h =
     (let h1 = h\<lparr>enqueued := enqueued h @ [g]\<rparr>
      in case rt (length (enqueued h)) g of
           EnqueueError \<Rightarrow> Inl (EnqueueFailed, h1)
         | FinishError \<Rightarrow> Inl (FinishFailed, h1)
         | Completed ns \<Rightarrow> Inr (h1\<lparr>clock := clock h1 + ns\<rparr>))"

section \<open>Benchmark driver of BatchedSquare\<close>

text \<open>
  part\_002, lines 316--339. The inner loop, with \<open>n\<close> the number of repetitions still
  to run (\<open>int(iterations) - it\<close>) and \<open>sum_us\<close> the accumulator \<open>sum\<close>, in
  microseconds:
  \<^verbatim>\<open>
    for it := 0; it < int(iterations); it++ {
        st := time.Now()
        ... EnqueueNDRangeKernel(kernel, nil, []int{elemCount / lz}, []int{lz}, nil) ...
        ... queue.Finish() ...
        sum += time.Since(st).Microseconds()
    }
  \<close>
\<close>

fun BatchedSquare_iterations ::
  "runtime \<Rightarrow> WorkGeometry \<Rightarrow> nat \<Rightarrow> int \<Rightarrow> Host \<Rightarrow> (panic \<times> Host) + (int \<times> Host)" where
  "BatchedSquare_iterations rt g 0 sum_us h = Inr (sum_us, h)"
| "BatchedSquare_iterations rt g (Suc n) sum_us h =
     (let st = clock h
      in case dispatch rt g h of
           Inl e \<Rightarrow> Inl e
         | Inr h' \<Rightarrow>
             BatchedSquare_iterations rt g n (sum_us + Microseconds (clock h' - st)) h')"

definition BatchedSquare_geometry :: "int \<Rightarrow> int \<Rightarrow> WorkGeometry" where
  "BatchedSquare_geometry elemCount lz =
     \<lparr>globalWorkSize = [go_quot elemCount lz], localWorkSize = Some [lz]\<rparr>"

text \<open>
  The outer loop:
  \<^verbatim>\<open>
    iterations := int64(16)
    for _, lz := range localSizes {
        if lz > maxWGSize {
            continue
        }
        var sum = int64(0)
        for it := 0; ... { ... }
        fmt.Printf("| %s   | %d | %d | %v |\n", ..., lz,
            (time.Microsecond * time.Duration(sum/iterations)).String())
    }
  \<close>
  \<open>elemCount / lz\<close> panics for \<open>lz = 0\<close>.
\<close>

fun BatchedSquare_candidates ::
  "Device \<Rightarrow> runtime \<Rightarrow> int \<Rightarrow> int list \<Rightarrow> Host \<Rightarrow> (panic \<times> Host) + Host" where
  "BatchedSquare_candidates dev rt elemCount [] h = Inr h"
| "BatchedSquare_candidates dev rt elemCount (lz # localSizes) h =
     (if lz > MaxWorkGroupSize dev
      then BatchedSquare_candidates dev rt elemCount localSizes h
      else if lz = 0 then Inl (DivideByZero, h)
      else
        case BatchedSquare_iterations rt (BatchedSquare_geometry elemCount lz) 16 0 h of
          Inl e \<Rightarrow> Inl e
        | Inr (sum_us, h') \<Rightarrow>
            BatchedSquare_candidates dev rt elemCount localSizes
              (h'\<lparr>rows := rows h' @ [(lz, go_quot sum_us 16)]\<rparr>))"

definition BatchedSquare_localSizes :: "int list" where
  "BatchedSquare_localSizes = [1, 2, 4, 8, 16, 32, 64, 128, 256, 512, 1024]"

definition BatchedSquare_elemCount :: int where
  "BatchedSquare_elemCount = 16777216"

text \<open>
  Lines 308--309 read the limits before the loop; \<open>MaxWorkItemSizes()[0]\<close> is printed
  (line 310) and not used again.
\<close>

definition BatchedSquare_benchmark :: "Device \<Rightarrow> runtime \<Rightarrow> (panic \<times> Host) + Host" where
  "BatchedSquare_benchmark dev rt =
     (case index (MaxWorkItemSizes dev) 0 of
        Inl e \<Rightarrow> Inl (e, host0)
      | Inr maxWISize \<Rightarrow>
          BatchedSquare_candidates dev rt BatchedSquare_elemCount BatchedSquare_localSizes host0)"

section \<open>Benchmark driver of Benchmark\<close>

text \<open>
  benchmark.go, lines 127--149. The feasibility test of line 131, with Go's
  left-to-right short-circuit \<open>||\<close>:
  \<^verbatim>\<open>
    if localSize*localSize > maxWgSize || localSize > wiSizes[0] || localSize > wiSizes[1] {
        continue
    }
  \<close>
\<close>

definition Benchmark_infeasible :: "Device \<Rightarrow> int \<Rightarrow> panic + bool" where
  "Benchmark_infeasible dev localSize =
     (if localSize * localSize > MaxWorkGroupSize dev then Inr True
      else
        case index (MaxWorkItemSizes dev) 0 of
          Inl e \<Rightarrow> Inl e
        | Inr wi0 \<Rightarrow>
            if localSize > wi0 then Inr True
            else
              case index (MaxWorkItemSizes dev) 1 of
                Inl e \<Rightarrow> Inl e
              | Inr wi1 \<Rightarrow> Inr (localSize > wi1))"

text \<open>
  The inner loop; \<open>st\<close> is read once per candidate, before the loop (line 130):
  \<^verbatim>\<open>
    for it := 0; it < int(iterations); it++ {
        ... EnqueueNDRangeKernel(kernel, nil, []int{elems, elems},
                                 []int{localSize, localSize}, nil) ...
        ... queue.Finish() ...
        sum += time.Since(st).Microseconds()
    }
  \<close>
\<close>

fun Benchmark_iterations ::
  "runtime \<Rightarrow> WorkGeometry \<Rightarrow> int \<Rightarrow> nat \<Rightarrow> int \<Rightarrow> Host \<Rightarrow> (panic \<times> Host) + (int \<times> Host)" where
  "Benchmark_iterations rt g st 0 sum_us h = Inr (sum_us, h)"
| "Benchmark_iterations rt g st (Suc n) sum_us h =
     (case dispatch rt g h of
        Inl e \<Rightarrow> Inl e
      | Inr h' \<Rightarrow> Benchmark_iterations rt g st n (sum_us + Microseconds (clock h' - st)) h')"

definition Benchmark_geometry :: "int \<Rightarrow> int \<Rightarrow> WorkGeometry" where
  "Benchmark_geometry elems localSize =
     \<lparr>globalWorkSize = [elems, elems], localWorkSize = Some [localSize, localSize]\<rparr>"

text \<open>
  The outer loop:
  \<^verbatim>\<open>
    for _, localSize := range localSizes {
        var sum = int64(0)
        st := time.Now()
        if ... { continue }
        for it := 0; ... { ... }
        fmt.Printf("| %s   | %d | %d | %v |\n", ..., localSize,
            (time.Microsecond * time.Duration(sum/iterations)).String())
    }
  \<close>
\<close>

fun Benchmark_candidates ::
  "Device \<Rightarrow> runtime \<Rightarrow> int \<Rightarrow> int list \<Rightarrow> Host \<Rightarrow> (panic \<times> Host) + Host" where
  "Benchmark_candidates dev rt elems [] h = Inr h"
| "Benchmark_candidates dev rt elems (localSize # localSizes) h =
     (let st = clock h
      in case Benchmark_infeasible dev localSize of
           Inl e \<Rightarrow> Inl (e, h)
         | Inr skip \<Rightarrow>
             if skip then Benchmark_candidates dev rt elems localSizes h
             else
               case Benchmark_iterations rt (Benchmark_geometry elems localSize) st 16 0 h of
                 Inl e \<Rightarrow> Inl e
               | Inr (sum_us, h') \<Rightarrow>
                   Benchmark_candidates dev rt elems localSizes
                     (h'\<lparr>rows := rows h' @ [(localSize, go_quot sum_us 16)]\<rparr>))"

definition Benchmark_localSizes :: "int list" where
  "Benchmark_localSizes = [1, 2, 4, 8, 16, 32, 64, 128, 256, 512, 1024]"

definition Benchmark_elems :: int where
  "Benchmark_elems = 1024"

definition Benchmark_benchmark :: "Device \<Rightarrow> runtime \<Rightarrow> (panic \<times> Host) + Host" where
  "Benchmark_benchmark dev rt =
     Benchmark_candidates dev rt Benchmark_elems Benchmark_localSizes host0"

text \<open>
  A device whose work-groups may hold 1024 items, at most 512 of them along one
  dimension, and two runtimes: one that completes every dispatch in one millisecond,
  and one that does so unless a local size exceeds 512, which it refuses at the enqueue.
\<close>

definition narrow :: Device where
  "narrow = \<lparr>Name = ''narrow'', MaxWorkGroupSize = 1024, MaxWorkItemSizes = [512, 512, 512],
             Extensions = []\<rparr>"

definition steady :: runtime where
  "steady k g = Completed 1000000"

definition strict :: runtime where
  "strict k g =
     (case localWorkSize g of
        None \<Rightarrow> Completed 1000000
      | Some ls \<Rightarrow> if list_all (\<lambda>l. l \<le> 512) ls then Completed 1000000 else EnqueueError)"

section \<open>Enqueues with an explicit local size outside the benchmark drivers\<close>

text \<open>
  \<open>strings.Contains(s, substr)\<close>: \<open>substr\<close> occurs in \<open>s\<close> as a contiguous run.
\<close>

fun strings_Contains :: "string \<Rightarrow> string \<Rightarrow> bool" where
  "strings_Contains [] substr = (substr = [])"
| "strings_Contains (c # s) substr = (prefix substr (c # s) \<or> strings_Contains s substr)"

text \<open>
  MultiDim (part\_003, lines 67 and 135):
  \<open>EnqueueNDRangeKernel(kernel, nil, []int{elems, elems}, []int{1, 1}, nil)\<close> with
  \<open>elems := 4\<close>.
\<close>

definition MultiDim_geometry :: WorkGeometry where
  "MultiDim_geometry =
     (let elems = 4
      in \<lparr>globalWorkSize = [elems, elems], localWorkSize = Some [1, 1]\<rparr>)"

text \<open>
  Vectors (part\_002, lines 35--40 and 178):
  \<open>EnqueueNDRangeKernel(kernel, nil, []int{len(vectors1) / 4}, []int{4}, nil)\<close>, where
  \<open>vectors1\<close> has \<open>64 * 4\<close> elements.
\<close>

definition Vectors_geometry :: WorkGeometry where
  "Vectors_geometry =
     (let len_vectors1 = 64 * 4
      in \<lparr>globalWorkSize = [go_quot len_vectors1 4], localWorkSize = Some [4]\<rparr>)"

text \<open>
  Vectors returns before it creates a context when the device lacks double precision
  (lines 71--74):
  \<^verbatim>\<open>
    if !strings.Contains(device.Extensions(), "cl_khr_fp64") {
        logrus.Errorf(...)
        return
    }
  \<close>
\<close>

definition Vectors_enqueues :: "Device \<Rightarrow> WorkGeometry list" where
  "Vectors_enqueues dev =
     (if \<not> strings_Contains (Extensions dev) ''cl_khr_fp64'' then []
      else [Vectors_geometry])"

text \<open>
  The two requirements of the data model on a geometry with an explicit local size:
  in every dimension the global size is a multiple of the local size, and the product
  of the local sizes is at most the device's \<open>MaxWorkGroupSize\<close>.
\<close>

definition multiple_per_dimension :: "WorkGeometry \<Rightarrow> bool" where
  "multiple_per_dimension g =
     (case localWorkSize g of
        None \<Rightarrow> True
      | Some ls \<Rightarrow> list_all2 (\<lambda>gd ld. ld \<noteq> 0 \<and> go_rem gd ld = 0) (globalWorkSize g) ls)"

definition within_work_group_limit :: "Device \<Rightarrow> WorkGeometry \<Rightarrow> bool" where
  "within_work_group_limit dev g =
     (case localWorkSize g of
        None \<Rightarrow> True
      | Some ls \<Rightarrow> prod_list ls \<le> MaxWorkGroupSize dev)"

text \<open>
  The third requirement of the data model: along each dimension the local size is
  positive and at most the device's \<open>MaxWorkItemSizes\<close> entry of that dimension. The
  OpenCL runtime refuses an enqueue whose explicit local size breaks one of the three
  (\<open>CL_INVALID_WORK_GROUP_SIZE\<close>, \<open>CL_INVALID_WORK_ITEM_SIZE\<close>):
  \<open>EnqueueNDRangeKernel\<close> then returns an error and no work-item runs.
  \<open>enqueue_accepted\<close> is that test.
\<close>

definition within_work_item_limits :: "Device \<Rightarrow> WorkGeometry \<Rightarrow> bool" where
  "within_work_item_limits dev g =
     (case localWorkSize g of
        None \<Rightarrow> True
      | Some ls \<Rightarrow>
          length ls \<le> length (MaxWorkItemSizes dev) \<and>
          list_all2 (\<lambda>ld m. 0 < ld \<and> ld \<le> m) ls (take (length ls) (MaxWorkItemSizes dev)))"

definition enqueue_accepted :: "Device \<Rightarrow> WorkGeometry \<Rightarrow> bool" where
  "enqueue_accepted dev g =
     (multiple_per_dimension g \<and> within_work_group_limit dev g \<and>
      within_work_item_limits dev g)"

text \<open>
  A device with the smallest work-group limit OpenCL allows, and double precision.
\<close>

definition serial :: Device where
  "serial = \<lparr>Name = ''serial'', MaxWorkGroupSize = 1, MaxWorkItemSizes = [1, 1, 1],
             Extensions = ''cl_khr_fp64''\<rparr>"

section \<open>Device memory and the execution of a kernel\<close>

text \<open>
  A device buffer is the list of its elements. A kernel reads and writes buffers through
  indices it computes itself; an access outside the buffer is undefined behaviour of the
  device, which the model reports as \<open>None\<close> instead of giving it a meaning.
\<close>

definition load :: "'a list \<Rightarrow> int \<Rightarrow> 'a option" where
  "load buf i = (if 0 \<le> i \<and> i < int (length buf) then Some (buf ! nat i) else None)"

definition store :: "'a list \<Rightarrow> int \<Rightarrow> 'a \<Rightarrow> 'a list option" where
  "store buf i v = (if 0 \<le> i \<and> i < int (length buf) then Some (buf[nat i := v]) else None)"

text \<open>
  A buffer is created with an access flag, as in
  \<open>context.CreateEmptyBuffer(cl.MemReadOnly, n)\<close>; the flag says how kernels use the
  buffer. OpenCL gives no meaning to a kernel's store into a buffer created
  \<open>CL_MEM_READ_ONLY\<close>. Implementations differ, and many perform the store like any
  other: \<open>enforced\<close> tells whether the implementation at hand holds kernels to the flag.
  Where it does, the store is reported as \<open>None\<close>, like an access out of bounds. The
  input buffers of the demos are created \<open>cl.MemReadOnly\<close> and kernels only load from
  them, which the flag allows.
\<close>

datatype MemFlag = MemReadOnly | MemWriteOnly | MemReadWrite

definition store_flagged :: "bool \<Rightarrow> MemFlag \<Rightarrow> 'a list \<Rightarrow> int \<Rightarrow> 'a \<Rightarrow> 'a list option" where
  "store_flagged enforced flag buf i v =
     (if enforced \<and> flag = MemReadOnly then None else store buf i v)"

text \<open>
  How the run of a demo ends short of its results: the device lacks double precision
  and the demo returns (Vectors); the run is stopped by a panic or by \<open>logrus.Fatalf\<close>;
  or the kernel does what OpenCL gives no meaning to.
\<close>

datatype fault = NoDoublePrecision | Stopped panic | UndefinedBehaviour

text \<open>
  OpenCL C's \<open>int\<close> is 32 bits wide in two's complement and \<open>unsigned int\<close> is 32
  bits wide.
\<close>

definition wrap32 :: "int \<Rightarrow> int" where
  "wrap32 x = (x + 2 ^ 31) mod 2 ^ 32 - 2 ^ 31"

definition u32 :: "int \<Rightarrow> int" where
  "u32 x = x mod 2 ^ 32"

text \<open>A loop whose body may fault: the first fault ends it.\<close>

fun for_each :: "'i list \<Rightarrow> ('i \<Rightarrow> 's \<Rightarrow> 's option) \<Rightarrow> 's \<Rightarrow> 's option" where
  "for_each [] body s = Some s"
| "for_each (x # xs) body s =
     (case body x s of None \<Rightarrow> None | Some s' \<Rightarrow> for_each xs body s')"

text \<open>
  A one-dimensional \<open>EnqueueNDRangeKernel\<close> runs the kernel once for every global id
  below the global size. The device chooses the order; \<open>schedule\<close> is that order, and
  \<open>schedule_of\<close> says that a list is one: every global id of the geometry, once. The
  kernel sees its global id and the local size (\<open>get_local_size(0)\<close>).
\<close>

definition global_ids :: "WorkGeometry \<Rightarrow> nat list" where
  "global_ids g = (case globalWorkSize g of [n] \<Rightarrow> [0..<nat n] | _ \<Rightarrow> [])"

definition schedule_of :: "WorkGeometry \<Rightarrow> nat list \<Rightarrow> bool" where
  "schedule_of g schedule = (distinct schedule \<and> set schedule = set (global_ids g))"

definition NDRange :: "(nat \<Rightarrow> nat \<Rightarrow> 's \<Rightarrow> 's option) \<Rightarrow> nat list \<Rightarrow> nat \<Rightarrow> 's \<Rightarrow> 's option" where
  "NDRange kern schedule local_size s = for_each schedule (\<lambda>gid. kern gid local_size) s"

section \<open>The square kernels\<close>

text \<open>
  batchedSquareSrc (part\_002, lines 210--221):
  \<^verbatim>\<open>
    int i = get_global_id(0);
    int localSize = get_local_size(0);
    for (int n = 0; n < localSize; n++) {
        int localIndex = i * localSize + n;
        output[localIndex] = input[localIndex] * input[localIndex];
    }
  \<close>
  The elements are \<open>int\<close>: 32-bit words, whose product wraps. \<open>flag\<close> is the access
  flag of the buffer bound to \<open>output\<close>.
\<close>

definition batchedSquareSrc ::
  "bool \<Rightarrow> MemFlag \<Rightarrow> 32 word list \<Rightarrow> nat \<Rightarrow> nat \<Rightarrow> 32 word list \<Rightarrow> 32 word list option" where
  "batchedSquareSrc enforced flag input gid local_size output =
     (let i = wrap32 (int gid);
          localSize = wrap32 (int local_size)
      in for_each (map int [0..<nat localSize])
           (\<lambda>n out.
              let localIndex = wrap32 (wrap32 (i * localSize) + n)
              in case load input localIndex of
                   None \<Rightarrow> None
                 | Some x \<Rightarrow> store_flagged enforced flag out localIndex (x * x))
           output)"

text \<open>
  squareLocalSrc (part\_001, lines 10--23), without its \<open>printf\<close>:
  \<^verbatim>\<open>
    int i = get_global_id(0);
    int localSize = get_local_size(0);
    for (int c = 0; c < localSize; c++) {
        int index = i*localSize+c;
        output[index] = input[index] * input[index];
    }
  \<close>
\<close>

definition squareLocalSrc ::
  "32 word list \<Rightarrow> nat \<Rightarrow> nat \<Rightarrow> 32 word list \<Rightarrow> 32 word list option" where
  "squareLocalSrc input gid local_size output =
     (let i = wrap32 (int gid);
          localSize = wrap32 (int local_size)
      in for_each (map int [0..<nat localSize])
           (\<lambda>c out.
              let index = wrap32 (wrap32 (i * localSize) + c)
              in case load input index of
                   None \<Rightarrow> None
                 | Some x \<Rightarrow> store out index (x * x))
           output)"

text \<open>
  One dispatch of BatchedSquare for the candidate \<open>lz\<close> (part\_002, lines 279 and
  326--334), on the uploaded \<open>numbers\<close>, whose length is \<open>elemCount\<close>, and with
  \<open>output\<close> the content of the output buffer before it:
  \<^verbatim>\<open>
    outputBuffer, err := context.CreateEmptyBuffer(cl.MemReadOnly, 4*len(numbers))
    ...
    if _, err := queue.EnqueueNDRangeKernel(kernel, nil, []int{elemCount / lz}, []int{lz}, nil); err != nil {
        panic("EnqueueNDRangeKernel failed: " + err.Error())
    }
  \<close>
  The division panics when \<open>lz\<close> is zero. The driver panics when the runtime refuses
  the enqueue. Otherwise the kernel runs once per global id with local size \<open>lz\<close> and
  stores into the output buffer, which was created \<open>cl.MemReadOnly\<close>.
\<close>

definition BatchedSquare_dispatch ::
  "Device \<Rightarrow> bool \<Rightarrow> 32 word list \<Rightarrow> int \<Rightarrow> nat list \<Rightarrow> 32 word list
     \<Rightarrow> fault + 32 word list" where
  "BatchedSquare_dispatch device enforced numbers lz schedule output =
     (let elemCount = int (length numbers)
      in if lz = 0 then Inl (Stopped DivideByZero)
         else if \<not> enqueue_accepted device (BatchedSquare_geometry elemCount lz)
         then Inl (Stopped EnqueueFailed)
         else
           case NDRange (batchedSquareSrc enforced MemReadOnly numbers) schedule (nat lz) output of
             None \<Rightarrow> Inl UndefinedBehaviour
           | Some results \<Rightarrow> Inr results)"

text \<open>
  SquareLocalSize (part\_001, lines 64--68, 111 and 125--132): the input is
  \<open>numbers[i] = int32(i)\<close> for \<open>i < 64\<close>, the enqueue is
  \<open>EnqueueNDRangeKernel(kernel, nil, []int{16}, nil, nil)\<close>, and all 64 elements of the
  output buffer are read back. The local size is \<open>nil\<close>, so the OpenCL implementation
  chooses it; \<open>chosen\<close> is its choice. The output buffer is created
  \<open>cl.MemWriteOnly\<close> (line 81), which allows the kernel's stores.
\<close>

definition SquareLocalSize_numbers :: "32 word list" where
  "SquareLocalSize_numbers = map (\<lambda>i. of_nat i) [0..<64]"

definition SquareLocalSize_geometry :: WorkGeometry where
  "SquareLocalSize_geometry = \<lparr>globalWorkSize = [16], localWorkSize = None\<rparr>"

definition SquareLocalSize_results ::
  "nat \<Rightarrow> nat list \<Rightarrow> 32 word list \<Rightarrow> 32 word list option" where
  "SquareLocalSize_results chosen schedule output =
     NDRange (squareLocalSrc SquareLocalSize_numbers) schedule chosen output"

text \<open>The element-wise squares, as the specification words the expected output.\<close>

definition squares :: "32 word list \<Rightarrow> 32 word list" where
  "squares input = map (\<lambda>x. x * x) input"

section \<open>The matrix-vector kernel and Vectors\<close>

text \<open>
  vectorsSrc (part\_002, lines 10--31). The elements are \<open>double\<close>; the model leaves
  their type open and uses nothing but its \<open>+\<close> and \<open>*\<close>, in the order the kernel
  applies them, so it holds of floating-point arithmetic as of any other.
  \<^verbatim>\<open>
    int i = get_global_id(0);
    if(i < count) {
        unsigned int vOffset = i * 4;
        unsigned int mOffset = i * 16;
        for (unsigned int row = 0; row < 4; row++) {
            double a = input2[mOffset + (row*4)+0] * input1[vOffset];
            double b = input2[mOffset + (row*4)+1] * input1[vOffset + 1];
            double c = input2[mOffset + (row*4)+2] * input1[vOffset + 2];
            double d = input2[mOffset + (row*4)+3] * input1[vOffset + 3];
            output[vOffset + row] = a + b + c + d;
        }
    }
  \<close>
  \<open>product_at xs i ys j\<close> is the expression \<open>xs[i] * ys[j]\<close>; \<open>flag\<close> is the access
  flag of the buffer bound to \<open>output\<close>.
\<close>

definition product_at :: "'a::times list \<Rightarrow> int \<Rightarrow> 'a list \<Rightarrow> int \<Rightarrow> 'a option" where
  "product_at xs i ys j =
     (case load xs i of
        None \<Rightarrow> None
      | Some x \<Rightarrow> (case load ys j of None \<Rightarrow> None | Some y \<Rightarrow> Some (x * y)))"

definition multiply2 ::
  "bool \<Rightarrow> MemFlag \<Rightarrow> 'a::{plus,times} list \<Rightarrow> 'a list \<Rightarrow> int \<Rightarrow> nat \<Rightarrow> nat \<Rightarrow> 'a list
     \<Rightarrow> 'a list option" where
  "multiply2 enforced flag input1 input2 count gid local_size output =
     (let i = wrap32 (int gid)
      in if u32 i < count then
           let vOffset = u32 (i * 4);
               mOffset = u32 (i * 16)
           in for_each (map int [0..<4])
                (\<lambda>row out.
                   case product_at input2 (u32 (mOffset + row * 4 + 0)) input1 vOffset of
                     None \<Rightarrow> None
                   | Some a \<Rightarrow>
                   case product_at input2 (u32 (mOffset + row * 4 + 1)) input1 (u32 (vOffset + 1)) of
                     None \<Rightarrow> None
                   | Some b \<Rightarrow>
                   case product_at input2 (u32 (mOffset + row * 4 + 2)) input1 (u32 (vOffset + 2)) of
                     None \<Rightarrow> None
                   | Some c \<Rightarrow>
                   case product_at input2 (u32 (mOffset + row * 4 + 3)) input1 (u32 (vOffset + 3)) of
                     None \<Rightarrow> None
                   | Some d \<Rightarrow> store_flagged enforced flag out (u32 (vOffset + row)) (a + b + c + d))
                output
         else Some output)"

text \<open>
  Vectors (part\_002, lines 33--48): the host data, with \<open>float64\<close> the conversion
  from \<open>int\<close>.
  \<^verbatim>\<open>
    for i := 0; i < 64; i++ {
        for j := 0; j < 4; j++ {
            vectors1 = append(vectors1, float64(i+j))
        }
    }
    for i := 0; i < 64; i++ {
        for j := 0; j < 16; j++ {
            matrices = append(matrices, float64(j))
        }
    }
  \<close>
\<close>

definition Vectors_vectors1 :: "(int \<Rightarrow> 'a) \<Rightarrow> 'a list" where
  "Vectors_vectors1 float64 = concat (map (\<lambda>i. map (\<lambda>j. float64 (i + j)) [0..3]) [0..63])"

definition Vectors_matrices :: "(int \<Rightarrow> 'a) \<Rightarrow> 'a list" where
  "Vectors_matrices float64 = concat (map (\<lambda>i. map (\<lambda>j. float64 j) [0..15]) [0..63])"

text \<open>
  Vectors from the double-precision test to the download (part\_002, lines 71--74, 134,
  154--180 and 188--195):
  \<^verbatim>\<open>
    if !strings.Contains(device.Extensions(), "cl_khr_fp64") { ...; return }
    ...
    output, err := context.CreateEmptyBuffer(cl.MemReadOnly, 8*len(vectors1))
    ...
    kernel.SetArgs(inputVector1, inputMatrix2, output, uint32(len(vectors1)))
    local, err := kernel.WorkGroupSize(device)
    global := len(vectors1)
    d := global % local
    if d != 0 {
        global += local - d
    }
    if _, err := queue.EnqueueNDRangeKernel(kernel, nil, []int{len(vectors1) / 4}, []int{4}, nil); err != nil {
        logrus.Fatalf("EnqueueNDRangeKernel failed: %+v", err)
    }
  \<close>
  \<open>local\<close> is the answer of \<open>kernel.WorkGroupSize(device)\<close>. The padded \<open>global\<close> is
  computed and logged, and the enqueue does not use it: its geometry is
  \<open>Vectors_geometry\<close>. \<open>logrus.Fatalf\<close> ends the run when the runtime refuses the enqueue.
  The kernel stores into the output buffer, which was created \<open>cl.MemReadOnly\<close>. The
  download reads \<open>len(vectors1)\<close> elements, which is the whole output buffer; \<open>output\<close>
  is what that buffer holds before the dispatch.
\<close>

definition Vectors_results ::
  "(int \<Rightarrow> 'a::{plus,times}) \<Rightarrow> Device \<Rightarrow> int \<Rightarrow> bool \<Rightarrow> nat list \<Rightarrow> 'a list
     \<Rightarrow> fault + 'a list" where
  "Vectors_results float64 device local enforced schedule output =
     (if \<not> strings_Contains (Extensions device) ''cl_khr_fp64'' then Inl NoDoublePrecision
      else
        let vectors1 = Vectors_vectors1 float64;
            matrices = Vectors_matrices float64;
            count = u32 (int (length vectors1))
        in case pad_global (int (length vectors1)) local of
             Inl p \<Rightarrow> Inl (Stopped p)
           | Inr global \<Rightarrow>
               if \<not> enqueue_accepted device Vectors_geometry then Inl (Stopped EnqueueFailed)
               else
                 case NDRange (multiply2 enforced MemReadOnly vectors1 matrices count)
                        schedule 4 output of
                   None \<Rightarrow> Inl UndefinedBehaviour
                 | Some results \<Rightarrow> Inr results)"



section \<open>Properties of the padding\<close>

lemma go_rem_pos: "0 \<le> a \<Longrightarrow> 0 < b \<Longrightarrow> go_rem a b = a mod b"
proof -
  assume a: "0 \<le> a" and b: "0 < b"
  have "go_quot a b = a div b"
  proof (cases "a = 0")
    case True
    then show ?thesis by (simp add: go_quot_def)
  next
    case False
    with a have "0 < a" by simp
    with b show ?thesis by (simp add: go_quot_def)
  qed
  then show ?thesis
    by (simp add: go_rem_def minus_mult_div_eq_mod)
qed





section \<open>Properties of the device selection\<close>

lemma index_in_range:
  "0 \<le> i \<Longrightarrow> i < int (length xs) \<Longrightarrow> index xs i = Inr (xs ! nat i)"
  by (simp add: index_def)

lemma index_out_of_range:
  "i < 0 \<or> int (length xs) \<le> i \<Longrightarrow> index xs i = Inl (IndexOutOfRange i (length xs))"
  by (auto simp: index_def)

text \<open>
  C8 (as amended). With a non-empty device list and a device index outside it, Benchmark,
  SquareLocalSize, BatchedSquare and MultiDim stop with the Go runtime's index-out-of-range
  panic at \<open>devices[deviceIndex]\<close>; Structs and Vectors stop the same way when the index
  is too large, and run on device 0 when it is negative. No demo raises a dedicated
  device-unavailable error for a bad index.
\<close>

theorem device_index_out_of_range:
  assumes "devices \<noteq> []" and "deviceIndex < 0 \<or> int (length devices) \<le> deviceIndex"
  shows "Benchmark_device devices deviceIndex
           = Inl (IndexOutOfRange deviceIndex (length devices)) \<and>
         SquareLocalSize_device devices deviceIndex
           = Inl (IndexOutOfRange deviceIndex (length devices)) \<and>
         BatchedSquare_device devices deviceIndex
           = Inl (IndexOutOfRange deviceIndex (length devices)) \<and>
         MultiDim_device devices deviceIndex
           = Inl (IndexOutOfRange deviceIndex (length devices)) \<and>
         Structs_device devices deviceIndex
           = (if deviceIndex < 0 then Inr (devices ! 0)
              else Inl (IndexOutOfRange deviceIndex (length devices))) \<and>
         Vectors_device devices deviceIndex
           = (if deviceIndex < 0 then Inr (devices ! 0)
              else Inl (IndexOutOfRange deviceIndex (length devices)))"
proof -
  have direct: "index devices deviceIndex = Inl (IndexOutOfRange deviceIndex (length devices))"
    using assms(2) by (rule index_out_of_range)
  have zero: "index devices 0 = Inr (devices ! 0)"
    using assms(1) by (simp add: index_def)
  show ?thesis
    using assms(1) direct zero
    by (simp add: Benchmark_device_def SquareLocalSize_device_def BatchedSquare_device_def
        MultiDim_device_def Structs_device_def Vectors_device_def)
qed

theorem device_index_out_of_range_witness:
  "[cpu, gpu] \<noteq> [] \<and> ((2::int) < 0 \<or> int (length [cpu, gpu]) \<le> 2) \<and>
   Benchmark_device [cpu, gpu] 2 = Inl (IndexOutOfRange 2 2) \<and>
   Structs_device [cpu, gpu] 2 = Inl (IndexOutOfRange 2 2)"
  using device_index_out_of_range [of "[cpu, gpu]" 2] by simp

theorem Structs_negative_index_proceeds:
  "Structs_device [cpu, gpu] (- 1) = Inr cpu \<and> Vectors_device [cpu, gpu] (- 1) = Inr cpu"
  by (simp add: Structs_device_def Vectors_device_def index_def)

text \<open>
  C10. For every negative device index, Structs and Vectors clamp the index to 0 and select
  device 0, while SquareLocalSize, MultiDim, BatchedSquare and Benchmark index the device
  list with the index as given, which panics. (With no device at all, every demo stops
  on its own check of the list's length.)
\<close>

theorem negative_device_index_differs:
  assumes "deviceIndex < 0"
  shows "Structs_device devices deviceIndex
           = (if devices = [] then Inl NoDevices else Inr (devices ! 0)) \<and>
         Vectors_device devices deviceIndex
           = (if devices = [] then Inl NoDevices else Inr (devices ! 0)) \<and>
         SquareLocalSize_device devices deviceIndex
           = (if devices = [] then Inl NoDevices
              else Inl (IndexOutOfRange deviceIndex (length devices))) \<and>
         MultiDim_device devices deviceIndex
           = (if devices = [] then Inl NoDevices
              else Inl (IndexOutOfRange deviceIndex (length devices))) \<and>
         BatchedSquare_device devices deviceIndex
           = (if devices = [] then Inl NoDevices
              else Inl (IndexOutOfRange deviceIndex (length devices))) \<and>
         Benchmark_device devices deviceIndex
           = (if devices = [] then Inl NoDevices
              else Inl (IndexOutOfRange deviceIndex (length devices)))"
  using assms
  by (simp add: Benchmark_device_def SquareLocalSize_device_def BatchedSquare_device_def
      MultiDim_device_def Structs_device_def Vectors_device_def index_def)

theorem negative_device_index_differs_witness:
  "(- 3 :: int) < 0 \<and>
   Structs_device [cpu, gpu] (- 3) = Inr cpu \<and>
   Vectors_device [cpu, gpu] (- 3) = Inr cpu \<and>
   SquareLocalSize_device [cpu, gpu] (- 3) = Inl (IndexOutOfRange (- 3) 2) \<and>
   MultiDim_device [cpu, gpu] (- 3) = Inl (IndexOutOfRange (- 3) 2) \<and>
   BatchedSquare_device [cpu, gpu] (- 3) = Inl (IndexOutOfRange (- 3) 2) \<and>
   Benchmark_device [cpu, gpu] (- 3) = Inl (IndexOutOfRange (- 3) 2)"
  using negative_device_index_differs [of "- 3" "[cpu, gpu]"] by simp

section \<open>Properties of the transfers\<close>

text \<open>
  C9. In every demo among the sources, each upload and each download starts at offset 0
  and its byte length added to the offset does not exceed the byte size its buffer was
  created with; the download of Structs reads \<open>len(input1)/2 = 128\<close> elements of four
  bytes from the output buffer of \<open>len(input1)*8 = 2048\<close> bytes.
\<close>

theorem transfers_in_bounds:
  "list_all in_bounds
     (Benchmark_transfers @ Structs_transfers ss @ SquareLocalSize_transfers @
      Vectors_transfers @ BatchedSquare_transfers @ MultiDim_transfers) \<and>
   list_all (\<lambda>t. offsetBytes t = 0)
     (Benchmark_transfers @ Structs_transfers ss @ SquareLocalSize_transfers @
      Vectors_transfers @ BatchedSquare_transfers @ MultiDim_transfers) \<and>
   map (\<lambda>t. (lengthBytes t, bufferBytes t)) (filter (\<lambda>t. direction t = Download) (Structs_transfers ss))
     = [(4 * 128, 256 * 8)]"
  by (simp add: in_bounds_def Benchmark_transfers_def Structs_transfers_def
      SquareLocalSize_transfers_def Vectors_transfers_def BatchedSquare_transfers_def
      MultiDim_transfers_def sizeof_float32_def sizeof_int32_def sizeof_float64_def
      go_quot_def Let_def)

section \<open>Properties of the benchmark drivers\<close>

lemma dispatch_cases:
  obtains (failed) e where "dispatch rt g h = Inl (e, h\<lparr>enqueued := enqueued h @ [g]\<rparr>)"
  | (completed) ns where "rt (length (enqueued h)) g = Completed ns"
      "dispatch rt g h = Inr (h\<lparr>enqueued := enqueued h @ [g], clock := clock h + ns\<rparr>)"
  by (cases "rt (length (enqueued h)) g") (simp_all add: dispatch_def Let_def)

subsection \<open>Which geometries a driver enqueues\<close>

lemma BatchedSquare_iterations_enqueued:
  assumes "list_all P (enqueued h)" and "P g"
  shows "case BatchedSquare_iterations rt g n s h of
           Inl (e, h') \<Rightarrow> list_all P (enqueued h')
         | Inr (s', h') \<Rightarrow> list_all P (enqueued h')"
  using assms(1)
proof (induction n arbitrary: s h)
  case 0
  then show ?case by simp
next
  case (Suc n)
  show ?case
  proof (cases rule: dispatch_cases [of rt g h])
    case (failed e)
    then show ?thesis using Suc.prems assms(2) by simp
  next
    case (completed ns)
    let ?h = "h\<lparr>enqueued := enqueued h @ [g], clock := clock h + ns\<rparr>"
    have "list_all P (enqueued ?h)" using Suc.prems assms(2) by simp
    from Suc.IH [OF this] show ?thesis using completed(2) by (simp add: Let_def)
  qed
qed

lemma Benchmark_iterations_enqueued:
  assumes "list_all P (enqueued h)" and "P g"
  shows "case Benchmark_iterations rt g st n s h of
           Inl (e, h') \<Rightarrow> list_all P (enqueued h')
         | Inr (s', h') \<Rightarrow> list_all P (enqueued h')"
  using assms(1)
proof (induction n arbitrary: s h)
  case 0
  then show ?case by simp
next
  case (Suc n)
  show ?case
  proof (cases rule: dispatch_cases [of rt g h])
    case (failed e)
    then show ?thesis using Suc.prems assms(2) by simp
  next
    case (completed ns)
    let ?h = "h\<lparr>enqueued := enqueued h @ [g], clock := clock h + ns\<rparr>"
    have "list_all P (enqueued ?h)" using Suc.prems assms(2) by simp
    from Suc.IH [OF this] show ?thesis using completed(2) by simp
  qed
qed

lemma BatchedSquare_candidates_enqueued:
  assumes "list_all (\<lambda>lz. lz > MaxWorkGroupSize dev \<or> lz = 0 \<or>
                          P (BatchedSquare_geometry elemCount lz)) localSizes"
    and "list_all P (enqueued h)"
  shows "list_all P (enqueued (final (BatchedSquare_candidates dev rt elemCount localSizes h)))"
  using assms
proof (induction localSizes arbitrary: h)
  case Nil
  then show ?case by (simp add: final_def)
next
  case (Cons lz localSizes)
  from Cons.prems
  have rest: "list_all (\<lambda>lz. lz > MaxWorkGroupSize dev \<or> lz = 0 \<or>
                             P (BatchedSquare_geometry elemCount lz)) localSizes"
    by simp
  consider (skip) "lz > MaxWorkGroupSize dev"
    | (zero) "\<not> lz > MaxWorkGroupSize dev" "lz = 0"
    | (run) "\<not> lz > MaxWorkGroupSize dev" "lz \<noteq> 0"
    by blast
  then show ?case
  proof cases
    case skip
    then show ?thesis using Cons.IH [OF rest Cons.prems(2)] by simp
  next
    case zero
    then show ?thesis using Cons.prems(2) by (simp add: final_def)
  next
    case run
    then have Pg: "P (BatchedSquare_geometry elemCount lz)" using Cons.prems(1) by simp
    note it = BatchedSquare_iterations_enqueued [OF Cons.prems(2) Pg, of rt 16 0]
    show ?thesis
    proof (cases "BatchedSquare_iterations rt (BatchedSquare_geometry elemCount lz) 16 0 h")
      case (Inl a)
      then show ?thesis using it run by (cases a) (simp add: final_def)
    next
      case (Inr b)
      obtain s' h' where b: "b = (s', h')" by (cases b)
      with Inr it have "list_all P (enqueued h')" by simp
      then have "list_all P (enqueued (h'\<lparr>rows := rows h' @ [(lz, go_quot s' 16)]\<rparr>))"
        by simp
      from Cons.IH [OF rest this] show ?thesis using Inr b run by simp
    qed
  qed
qed

lemma Benchmark_infeasible_False:
  assumes "Benchmark_infeasible dev L = Inr False"
  shows "L * L \<le> MaxWorkGroupSize dev"
  using assms by (auto simp: Benchmark_infeasible_def split: if_splits sum.splits)

lemma Benchmark_candidates_enqueued:
  assumes "list_all (\<lambda>L. L * L > MaxWorkGroupSize dev \<or> P (Benchmark_geometry elems L))
             localSizes"
    and "list_all P (enqueued h)"
  shows "list_all P (enqueued (final (Benchmark_candidates dev rt elems localSizes h)))"
  using assms
proof (induction localSizes arbitrary: h)
  case Nil
  then show ?case by (simp add: final_def)
next
  case (Cons L localSizes)
  from Cons.prems
  have rest: "list_all (\<lambda>L. L * L > MaxWorkGroupSize dev \<or> P (Benchmark_geometry elems L))
                localSizes"
    by simp
  show ?case
  proof (cases "Benchmark_infeasible dev L")
    case (Inl e)
    then show ?thesis using Cons.prems(2) by (simp add: final_def)
  next
    case (Inr skip)
    show ?thesis
    proof (cases skip)
      case True
      then show ?thesis using Inr Cons.IH [OF rest Cons.prems(2)] by simp
    next
      case False
      with Inr have "L * L \<le> MaxWorkGroupSize dev" by (simp add: Benchmark_infeasible_False)
      then have Pg: "P (Benchmark_geometry elems L)" using Cons.prems(1) by simp
      note it = Benchmark_iterations_enqueued [OF Cons.prems(2) Pg, of rt "clock h" 16 0]
      show ?thesis
      proof (cases "Benchmark_iterations rt (Benchmark_geometry elems L) (clock h) 16 0 h")
        case (Inl a)
        then show ?thesis using it Inr False by (cases a) (simp add: final_def)
      next
        case r: (Inr b)
        obtain s' h' where b: "b = (s', h')" by (cases b)
        with r it have "list_all P (enqueued h')" by simp
        then have "list_all P (enqueued (h'\<lparr>rows := rows h' @ [(L, go_quot s' 16)]\<rparr>))"
          by simp
        from Cons.IH [OF rest this] show ?thesis using r b Inr False by simp
      qed
    qed
  qed
qed

lemma Benchmark_benchmark_geometry:
  "list_all (\<lambda>g. multiple_per_dimension g \<and> within_work_group_limit dev g)
     (enqueued (final (Benchmark_benchmark dev rt)))"
  unfolding Benchmark_benchmark_def
  by (rule Benchmark_candidates_enqueued)
     (auto simp add: Benchmark_localSizes_def Benchmark_elems_def Benchmark_geometry_def
        multiple_per_dimension_def within_work_group_limit_def go_rem_def go_quot_def host0_def)

lemma BatchedSquare_benchmark_geometry:
  "list_all (\<lambda>g. multiple_per_dimension g \<and> within_work_group_limit dev g)
     (enqueued (final (BatchedSquare_benchmark dev rt)))"
proof (cases "index (MaxWorkItemSizes dev) 0")
  case (Inl e)
  then show ?thesis by (simp add: BatchedSquare_benchmark_def final_def host0_def)
next
  case (Inr w)
  have "list_all (\<lambda>g. multiple_per_dimension g \<and> within_work_group_limit dev g)
     (enqueued (final (BatchedSquare_candidates dev rt BatchedSquare_elemCount
                         BatchedSquare_localSizes host0)))"
    by (rule BatchedSquare_candidates_enqueued)
      (auto simp add: BatchedSquare_localSizes_def BatchedSquare_elemCount_def
        BatchedSquare_geometry_def multiple_per_dimension_def within_work_group_limit_def
        go_rem_def go_quot_def host0_def)
  then show ?thesis using Inr by (simp add: BatchedSquare_benchmark_def)
qed

text \<open>
  On every device whose work-group limit is at least 1, every enqueue with an explicit
  local size has a global size that is a multiple of the local size in each dimension;
  the product of the local sizes is at most \<open>MaxWorkGroupSize\<close> in both benchmark
  drivers, which test it, and in MultiDim, where the product is 1. For Vectors the bound
  holds exactly when \<open>MaxWorkGroupSize\<close> is at least 4 (or the device lacks double
  precision and nothing is enqueued).
\<close>

lemma explicit_local_sizes_tile_and_fit:
  assumes "1 \<le> MaxWorkGroupSize dev"
  shows "list_all (\<lambda>g. multiple_per_dimension g \<and> within_work_group_limit dev g)
           (enqueued (final (Benchmark_benchmark dev rt))) \<and>
         list_all (\<lambda>g. multiple_per_dimension g \<and> within_work_group_limit dev g)
           (enqueued (final (BatchedSquare_benchmark dev rt'))) \<and>
         multiple_per_dimension MultiDim_geometry \<and>
         within_work_group_limit dev MultiDim_geometry \<and>
         list_all multiple_per_dimension (Vectors_enqueues dev) \<and>
         list_all (within_work_group_limit dev) (Vectors_enqueues dev)
           = (4 \<le> MaxWorkGroupSize dev \<or> \<not> strings_Contains (Extensions dev) ''cl_khr_fp64'')"
proof -
  have "multiple_per_dimension MultiDim_geometry"
    by (simp add: MultiDim_geometry_def multiple_per_dimension_def go_rem_def go_quot_def)
  moreover have "within_work_group_limit dev MultiDim_geometry"
    using assms by (simp add: MultiDim_geometry_def within_work_group_limit_def)
  moreover have "list_all multiple_per_dimension (Vectors_enqueues dev)"
    by (simp add: Vectors_enqueues_def Vectors_geometry_def multiple_per_dimension_def
        go_rem_def go_quot_def)
  moreover have "list_all (within_work_group_limit dev) (Vectors_enqueues dev)
           = (4 \<le> MaxWorkGroupSize dev \<or> \<not> strings_Contains (Extensions dev) ''cl_khr_fp64'')"
    by (auto simp add: Vectors_enqueues_def Vectors_geometry_def within_work_group_limit_def)
  ultimately show ?thesis
    using Benchmark_benchmark_geometry BatchedSquare_benchmark_geometry by blast
qed

text \<open>
  C4 (the code departs from it). Vectors asks the runtime for the kernel's work-group
  size, and then enqueues the fixed local size 4 without comparing it with any limit
  of the device. On a device with double precision whose work-group limit is 1, the
  local size 4 of the one enqueue exceeds the limit; the runtime refuses the enqueue
  and \<open>logrus.Fatalf\<close> ends the run.
\<close>

theorem Vectors_local_size_exceeds_limit:
  "Vectors_enqueues serial = [\<lparr>globalWorkSize = [64], localWorkSize = Some [4]\<rparr>] \<and>
   MaxWorkGroupSize serial = 1 \<and>
   \<not> list_all (within_work_group_limit serial) (Vectors_enqueues serial) \<and>
   Vectors_results float64 serial 1 enforced schedule output = Inl (Stopped EnqueueFailed)"
proof -
  have "Vectors_enqueues serial = [\<lparr>globalWorkSize = [64], localWorkSize = Some [4]\<rparr>] \<and>
        MaxWorkGroupSize serial = 1 \<and>
        \<not> list_all (within_work_group_limit serial) (Vectors_enqueues serial)"
    by code_simp
  moreover have "strings_Contains (Extensions serial) ''cl_khr_fp64''"
    by code_simp
  moreover have "\<not> enqueue_accepted serial Vectors_geometry"
    by code_simp
  moreover have "\<exists>g. pad_global (int (length (Vectors_vectors1 float64))) 1 = Inr g"
    by (simp add: pad_global_def Let_def)
  ultimately show ?thesis
    by (auto simp add: Vectors_results_def Let_def)
qed

subsection \<open>Which candidates a driver skips\<close>

lemma BatchedSquare_iterations_grows:
  "case BatchedSquare_iterations rt g n s h of
     Inl (e, h') \<Rightarrow> set (enqueued h) \<subseteq> set (enqueued h')
   | Inr (s', h') \<Rightarrow> set (enqueued h) \<subseteq> set (enqueued h')"
proof (induction n arbitrary: s h)
  case 0
  then show ?case by simp
next
  case (Suc n)
  show ?case
  proof (cases rule: dispatch_cases [of rt g h])
    case (failed e)
    then show ?thesis by auto
  next
    case (completed ns)
    let ?h = "h\<lparr>enqueued := enqueued h @ [g], clock := clock h + ns\<rparr>"
    have "set (enqueued h) \<subseteq> set (enqueued ?h)" by auto
    with Suc.IH [where h = ?h and s = "s + Microseconds (clock ?h - clock h)"] show ?thesis
      using completed(2) by (auto simp: Let_def split: sum.splits)
  qed
qed

lemma BatchedSquare_candidates_grows:
  "set (enqueued h) \<subseteq> set (enqueued (final (BatchedSquare_candidates dev rt elemCount localSizes h)))"
proof (induction localSizes arbitrary: h)
  case Nil
  then show ?case by (simp add: final_def)
next
  case (Cons lz localSizes)
  show ?case
  proof (cases "BatchedSquare_iterations rt (BatchedSquare_geometry elemCount lz) 16 0 h")
    case (Inl a)
    obtain e h' where a: "a = (e, h')" by (cases a)
    with Inl BatchedSquare_iterations_grows [where rt = rt and g = "BatchedSquare_geometry elemCount lz" and n = 16 and s = 0 and h = h]
    have "set (enqueued h) \<subseteq> set (enqueued h')" by simp
    with Inl a Cons.IH [of h] show ?thesis by (auto simp: final_def)
  next
    case (Inr b)
    obtain s' h' where b: "b = (s', h')" by (cases b)
    with Inr BatchedSquare_iterations_grows [where rt = rt and g = "BatchedSquare_geometry elemCount lz" and n = 16 and s = 0 and h = h]
    have "set (enqueued h) \<subseteq> set (enqueued h')" by simp
    moreover have "set (enqueued h') \<subseteq> set (enqueued (final (BatchedSquare_candidates dev rt elemCount localSizes
              (h'\<lparr>rows := rows h' @ [(lz, go_quot s' 16)]\<rparr>))))"
      using Cons.IH [of "h'\<lparr>rows := rows h' @ [(lz, go_quot s' 16)]\<rparr>"] by simp
    ultimately show ?thesis using Inr b Cons.IH [of h] by (auto simp: final_def)
  qed
qed

lemma BatchedSquare_first_iteration_enqueues:
  "case BatchedSquare_iterations rt g (Suc n) s h of
     Inl (e, h') \<Rightarrow> g \<in> set (enqueued h')
   | Inr (s', h') \<Rightarrow> g \<in> set (enqueued h')"
proof (cases rule: dispatch_cases [of rt g h])
  case (failed e)
  then show ?thesis by simp
next
  case (completed ns)
  let ?h = "h\<lparr>enqueued := enqueued h @ [g], clock := clock h + ns\<rparr>"
  have "g \<in> set (enqueued ?h)" by simp
  with BatchedSquare_iterations_grows [where rt = rt and g = g and n = n and s = "s + Microseconds (clock ?h - clock h)" and h = ?h]
  show ?thesis using completed(2) by (auto simp: Let_def split: sum.splits)
qed

lemma BatchedSquare_candidate_is_enqueued:
  assumes "\<not> lz > MaxWorkGroupSize dev" and "lz \<noteq> 0"
  shows "BatchedSquare_geometry elemCount lz
           \<in> set (enqueued (final (BatchedSquare_candidates dev rt elemCount (lz # localSizes) h)))"
proof -
  let ?g = "BatchedSquare_geometry elemCount lz"
  have sixteen: "(16::nat) = Suc 15" by simp
  note first = BatchedSquare_first_iteration_enqueues [where rt = rt and g = ?g and n = 15 and s = 0 and h = h, folded sixteen]
  show ?thesis
  proof (cases "BatchedSquare_iterations rt ?g 16 0 h")
    case (Inl a)
    then show ?thesis using first assms by (cases a) (simp add: final_def)
  next
    case (Inr b)
    obtain s' h' where b: "b = (s', h')" by (cases b)
    with Inr first have "?g \<in> set (enqueued h')" by simp
    then have "?g \<in> set (enqueued (h'\<lparr>rows := rows h' @ [(lz, go_quot s' 16)]\<rparr>))" by simp
    with BatchedSquare_candidates_grows [where h = "h'\<lparr>rows := rows h' @ [(lz, go_quot s' 16)]\<rparr>" and dev = dev and rt = rt and elemCount = elemCount and localSizes = localSizes]
    show ?thesis using Inr b assms by auto
  qed
qed

lemma BatchedSquare_skips_beyond_group_limit:
  "lz > MaxWorkGroupSize dev \<Longrightarrow>
     BatchedSquare_candidates dev rt elemCount (lz # localSizes) h
       = BatchedSquare_candidates dev rt elemCount localSizes h"
  by simp

lemma Benchmark_skips_infeasible:
  "Benchmark_infeasible dev localSize = Inr True \<Longrightarrow>
     Benchmark_candidates dev rt elems (localSize # localSizes) h
       = Benchmark_candidates dev rt elems localSizes h"
  by simp

lemma Benchmark_infeasible_iff:
  "MaxWorkItemSizes dev = wi0 # wi1 # wis \<Longrightarrow>
     Benchmark_infeasible dev localSize
       = Inr (localSize * localSize > MaxWorkGroupSize dev \<or> localSize > wi0 \<or> localSize > wi1)"
  by (simp add: Benchmark_infeasible_def index_def)

text \<open>
  C2 (the code departs from it). On a device whose work-groups may hold 1024 items but at
  most 512 along the first dimension, the candidate 1024 exceeds the work-item limit.
  Benchmark skips it. BatchedSquare tests the work-group limit only, so it hands the
  candidate to the runtime: a runtime that enforces the limit fails the enqueue and the
  driver panics, and a runtime that lets it pass yields a measurement row for it.
\<close>

theorem BatchedSquare_dispatches_beyond_work_item_limit:
  "MaxWorkGroupSize narrow = 1024 \<and> index (MaxWorkItemSizes narrow) 0 = Inr 512 \<and>
   Benchmark_infeasible narrow 1024 = Inr True \<and>
   BatchedSquare_candidates narrow strict BatchedSquare_elemCount [1024] host0
     = Inl (EnqueueFailed,
            host0\<lparr>enqueued := [BatchedSquare_geometry BatchedSquare_elemCount 1024]\<rparr>) \<and>
   rows (final (BatchedSquare_candidates narrow steady BatchedSquare_elemCount [1024] host0))
     = [(1024, 1000)]"
  by code_simp

subsection \<open>What a driver reports\<close>

lemma BatchedSquare_iterations_completed:
  assumes "\<And>k. k < n \<Longrightarrow> rt (length (enqueued h) + k) g = Completed (d k)"
  shows "BatchedSquare_iterations rt g n s h =
           Inr (s + (\<Sum>k<n. Microseconds (d k)),
                h\<lparr>enqueued := enqueued h @ replicate n g, clock := clock h + (\<Sum>k<n. d k)\<rparr>)"
  using assms
proof (induction n arbitrary: s h d)
  case 0
  then show ?case by simp
next
  case (Suc n)
  let ?h = "h\<lparr>enqueued := enqueued h @ [g], clock := clock h + d 0\<rparr>"
  have first: "dispatch rt g h = Inr ?h"
    using Suc.prems [of 0] by (simp add: dispatch_def Let_def)
  have rest: "rt (length (enqueued ?h) + k) g = Completed ((d \<circ> Suc) k)" if "k < n" for k
    using Suc.prems [of "Suc k"] that by simp
  show ?case
    using first Suc.IH [OF rest]
    by (simp add: Let_def sum.lessThan_Suc_shift replicate_append_same algebra_simps
        del: sum.lessThan_Suc)
qed

lemma Benchmark_iterations_completed:
  assumes "\<And>k. k < n \<Longrightarrow> rt (length (enqueued h) + k) g = Completed (d k)"
  shows "Benchmark_iterations rt g st n s h =
           Inr (s + (\<Sum>k<n. Microseconds (clock h - st + (\<Sum>j\<le>k. d j))),
                h\<lparr>enqueued := enqueued h @ replicate n g, clock := clock h + (\<Sum>k<n. d k)\<rparr>)"
  using assms
proof (induction n arbitrary: s h d)
  case 0
  then show ?case by simp
next
  case (Suc n)
  let ?h = "h\<lparr>enqueued := enqueued h @ [g], clock := clock h + d 0\<rparr>"
  have first: "dispatch rt g h = Inr ?h"
    using Suc.prems [of 0] by (simp add: dispatch_def Let_def)
  have rest: "rt (length (enqueued ?h) + k) g = Completed ((d \<circ> Suc) k)" if "k < n" for k
    using Suc.prems [of "Suc k"] that by simp
  have shift: "(\<Sum>j\<le>Suc k. d j) = d 0 + (\<Sum>j\<le>k. (d \<circ> Suc) j)" for k
    by (simp add: sum.atMost_Suc_shift del: sum.atMost_Suc)
  have later: "(\<Sum>k<n. Microseconds (clock ?h - st + (\<Sum>j\<le>k. (d \<circ> Suc) j)))
                 = (\<Sum>k<n. Microseconds (clock h - st + (\<Sum>j\<le>Suc k. d j)))"
    by (rule sum.cong [OF refl]) (simp add: shift algebra_simps del: sum.atMost_Suc)
  have total: "(\<Sum>k<Suc n. Microseconds (clock h - st + (\<Sum>j\<le>k. d j)))
                 = Microseconds (clock h + d 0 - st)
                   + (\<Sum>k<n. Microseconds (clock h - st + (\<Sum>j\<le>Suc k. d j)))"
    by (simp add: sum.lessThan_Suc_shift algebra_simps del: sum.lessThan_Suc sum.atMost_Suc)
  have clocks: "(\<Sum>k<Suc n. d k) = d 0 + (\<Sum>k<n. (d \<circ> Suc) k)"
    by (simp add: sum.lessThan_Suc_shift del: sum.lessThan_Suc)
  have "Benchmark_iterations rt g st (Suc n) s h
          = Benchmark_iterations rt g st n (s + Microseconds (clock ?h - st)) ?h"
    using first by simp
  also have "\<dots> = Inr (s + Microseconds (clock ?h - st)
                          + (\<Sum>k<n. Microseconds (clock ?h - st + (\<Sum>j\<le>k. (d \<circ> Suc) j))),
                        ?h\<lparr>enqueued := enqueued ?h @ replicate n g,
                            clock := clock ?h + (\<Sum>k<n. (d \<circ> Suc) k)\<rparr>)"
    by (rule Suc.IH [OF rest])
  also have "\<dots> = Inr (s + (\<Sum>k<Suc n. Microseconds (clock h - st + (\<Sum>j\<le>k. d j))),
                        h\<lparr>enqueued := enqueued h @ replicate (Suc n) g,
                           clock := clock h + (\<Sum>k<Suc n. d k)\<rparr>)"
    unfolding later total clocks by (simp add: replicate_append_same)
  finally show ?case .
qed

lemma BatchedSquare_reports_mean_of_dispatches:
  assumes "\<not> lz > MaxWorkGroupSize dev" and "lz \<noteq> 0"
    and "\<And>k. k < 16 \<Longrightarrow>
           rt (length (enqueued h) + k) (BatchedSquare_geometry elemCount lz) = Completed (d k)"
  shows "BatchedSquare_candidates dev rt elemCount [lz] h =
           Inr (h\<lparr>enqueued := enqueued h @ replicate 16 (BatchedSquare_geometry elemCount lz),
                  clock := clock h + (\<Sum>k<16. d k),
                  rows := rows h @ [(lz, go_quot (\<Sum>k<16. Microseconds (d k)) 16)]\<rparr>)"
  using assms(1,2) BatchedSquare_iterations_completed [of 16 rt h "BatchedSquare_geometry elemCount lz" d 0, OF assms(3)]
  by simp

lemma Benchmark_reports_mean_of_running_totals:
  assumes "Benchmark_infeasible dev localSize = Inr False"
    and "\<And>k. k < 16 \<Longrightarrow>
           rt (length (enqueued h) + k) (Benchmark_geometry elems localSize) = Completed (d k)"
  shows "Benchmark_candidates dev rt elems [localSize] h =
           Inr (h\<lparr>enqueued := enqueued h @ replicate 16 (Benchmark_geometry elems localSize),
                  clock := clock h + (\<Sum>k<16. d k),
                  rows := rows h @ [(localSize,
                             go_quot (\<Sum>k<16. Microseconds (\<Sum>j\<le>k. d j)) 16)]\<rparr>)"
  using assms(1) Benchmark_iterations_completed [of 16 rt h "Benchmark_geometry elems localSize" d "clock h" 0, OF assms(2)]
  by simp

text \<open>
  C3 (the code departs from it). With every dispatch taking one millisecond, BatchedSquare
  reports 1000 microseconds for a candidate, the mean over its 16 dispatches. Benchmark
  reads the start time once per candidate, before the loop, so the 16 values it adds are
  the running totals 1, 2, ..., 16 milliseconds and it reports 8500 microseconds.
\<close>

theorem Benchmark_reports_cumulative_time:
  "Benchmark_infeasible cpu 1 = Inr False \<and>
   rows (final (Benchmark_candidates cpu steady Benchmark_elems [1] host0)) = [(1, 8500)] \<and>
   length (enqueued (final (Benchmark_candidates cpu steady Benchmark_elems [1] host0))) = 16 \<and>
   clock (final (Benchmark_candidates cpu steady Benchmark_elems [1] host0)) = 16 * 1000000 \<and>
   rows (final (BatchedSquare_candidates cpu steady BatchedSquare_elemCount [1] host0))
     = [(1, 1000)]"
  by code_simp

section \<open>Properties of the square kernels\<close>

lemma wrap32_id: "0 \<le> x \<Longrightarrow> x < 2 ^ 31 \<Longrightarrow> wrap32 x = x"
  by (simp add: wrap32_def)

lemma for_each_append:
  "for_each (xs @ ys) body s =
     (case for_each xs body s of None \<Rightarrow> None | Some s' \<Rightarrow> for_each ys body s')"
  by (induction xs arbitrary: s) (auto split: option.splits)

lemma for_each_cong:
  "(\<And>x s. x \<in> set xs \<Longrightarrow> body x s = body' x s) \<Longrightarrow> for_each xs body s = for_each xs body' s"
  by (induction xs arbitrary: s) (auto split: option.splits)

lemma in_chunk_iff_div:
  fixes j x L :: nat
  assumes "0 < L"
  shows "(x * L \<le> j \<and> j < x * L + L) = (j div L = x)"
proof
  assume "x * L \<le> j \<and> j < x * L + L"
  then show "j div L = x"
    by (intro div_nat_eqI) (simp_all add: mult.commute)
next
  assume d: "j div L = x"
  have "j div L * L + j mod L = j" by (rule div_mult_mod_eq)
  with d have "x * L + j mod L = j" by simp
  moreover have "j mod L < L" using assms by simp
  ultimately show "x * L \<le> j \<and> j < x * L + L" by linarith
qed

lemma square_loop:
  fixes input out :: "32 word list"
  assumes "length out = length input" and "base + k \<le> length input"
  shows "for_each (map int [0..<k])
           (\<lambda>n buf. case load input (int base + n) of
                     None \<Rightarrow> None
                   | Some x \<Rightarrow> store buf (int base + n) (x * x)) out
         = Some (map (\<lambda>j. if base \<le> j \<and> j < base + k then input ! j * input ! j else out ! j)
                   [0..<length out])"
  using assms(2)
proof (induction k)
  case 0
  have "map (\<lambda>j. if base \<le> j \<and> j < base + 0 then input ! j * input ! j else out ! j)
          [0..<length out] = out"
    by (intro nth_equalityI) auto
  then show ?case by simp
next
  case (Suc k)
  let ?body = "\<lambda>n buf. case load input (int base + n) of
                     None \<Rightarrow> None
                   | Some x \<Rightarrow> store buf (int base + n) (x * x)"
  let ?after = "\<lambda>k. map (\<lambda>j. if base \<le> j \<and> j < base + k then input ! j * input ! j else out ! j)
                   [0..<length out]"
  from Suc.prems have k: "base + k < length input" by simp
  have ih: "for_each (map int [0..<k]) ?body out = Some (?after k)"
    using Suc.IH Suc.prems by simp
  have ld: "load input (int base + int k) = Some (input ! (base + k))"
    using k by (simp add: load_def nat_add_distrib)
  have st: "store (?after k) (int base + int k) v = Some ((?after k)[base + k := v])" for v
    using k assms(1) by (simp add: store_def nat_add_distrib)
  have upd: "(?after k)[base + k := input ! (base + k) * input ! (base + k)] = ?after (Suc k)"
    using k assms(1) by (intro nth_equalityI) (auto simp: nth_list_update)
  show ?case
    by (simp add: for_each_append ih ld st upd del: upt_Suc add: upt_Suc_append)
qed

lemma squareLocalSrc_item:
  assumes "length output = length input" and "length input < 2 ^ 31"
    and "0 < L" and "(gid + 1) * L \<le> length input"
  shows "squareLocalSrc input gid L output
         = Some (map (\<lambda>j. if j div L = gid then input ! j * input ! j else output ! j)
                   [0..<length output])"
proof -
  have "L \<le> (gid + 1) * L" by simp
  with assms(4) have LN: "L \<le> length input" by linarith
  have gL: "gid * L + L \<le> length input" using assms(4) by simp
  have gN: "gid \<le> gid * L" using assms(3) by (cases L) simp_all
  have "gid < 2 ^ 31" using gN gL assms(2) by linarith
  then have g31: "int gid < 2 ^ 31" by simp
  have "L < 2 ^ 31" using LN assms(2) by linarith
  then have l31: "int L < 2 ^ 31" by simp
  have "gid * L < 2 ^ 31" using gL assms(2) by linarith
  then have "int (gid * L) < int (2 ^ 31)" by (simp only: of_nat_less_iff)
  then have gl31: "int gid * int L < 2 ^ 31" by simp
  have wg: "wrap32 (int gid) = int gid"
    using g31 by (intro wrap32_id) simp_all
  have wl: "wrap32 (int L) = int L"
    using l31 by (intro wrap32_id) simp_all
  have "(0::int) \<le> int gid * int L" by simp
  then have "wrap32 (int gid * int L) = int gid * int L"
    using gl31 by (rule wrap32_id)
  then have wgl: "wrap32 (int gid * int L) = int (gid * L)" by simp
  have idx: "wrap32 (int (gid * L) + n) = int (gid * L) + n" if "n \<in> set (map int [0..<L])" for n
  proof -
    from that obtain m where m: "n = int m" "m < L" by auto
    then have "gid * L + m < 2 ^ 31" using gL assms(2) by linarith
    then have "int (gid * L + m) < int (2 ^ 31)" by (simp only: of_nat_less_iff)
    then have "int gid * int L + int m < 2 ^ 31" by simp
    moreover have "(0::int) \<le> int gid * int L + int m" by simp
    ultimately have "wrap32 (int gid * int L + int m) = int gid * int L + int m"
      by (intro wrap32_id)
    then show ?thesis using m by simp
  qed
  have "squareLocalSrc input gid L output
          = for_each (map int [0..<L])
              (\<lambda>n buf. case load input (wrap32 (int (gid * L) + n)) of
                           None \<Rightarrow> None
                         | Some x \<Rightarrow> store buf (wrap32 (int (gid * L) + n)) (x * x)) output"
    unfolding squareLocalSrc_def Let_def wg wl wgl nat_int ..
  also have "\<dots> = for_each (map int [0..<L])
              (\<lambda>n buf. case load input (int (gid * L) + n) of
                           None \<Rightarrow> None
                         | Some x \<Rightarrow> store buf (int (gid * L) + n) (x * x)) output"
    by (rule for_each_cong) (simp only: idx cong: option.case_cong)
  also have "\<dots> = Some (map (\<lambda>j. if gid * L \<le> j \<and> j < gid * L + L
                                   then input ! j * input ! j else output ! j)
                            [0..<length output])"
    using assms(1) gL by (rule square_loop)
  also have "\<dots> = Some (map (\<lambda>j. if j div L = gid then input ! j * input ! j else output ! j)
                            [0..<length output])"
    using assms(3) by (simp add: in_chunk_iff_div)
  finally show ?thesis .
qed

lemma NDRange_squareLocalSrc:
  assumes "length outp = length input" and "length input < 2 ^ 31" and "0 < L"
    and "\<And>gid. gid \<in> set schedule \<Longrightarrow> (gid + 1) * L \<le> length input"
  shows "NDRange (squareLocalSrc input) schedule L outp
         = Some (map (\<lambda>j. if j div L \<in> set schedule then input ! j * input ! j else outp ! j)
                   [0..<length outp])"
  using assms(1,4)
proof (induction schedule arbitrary: outp)
  case Nil
  have "map (\<lambda>j. if j div L \<in> set [] then input ! j * input ! j else outp ! j)
          [0..<length outp] = outp"
    by (intro nth_equalityI) auto
  then show ?case by (simp add: NDRange_def)
next
  case (Cons gid schedule)
  let ?out = "map (\<lambda>j. if j div L = gid then input ! j * input ! j else outp ! j)
                [0..<length outp]"
  have item: "squareLocalSrc input gid L outp = Some ?out"
    using Cons.prems(1) assms(2,3) Cons.prems(2) [of gid] by (intro squareLocalSrc_item) simp_all
  have len: "length ?out = length input" using Cons.prems(1) by simp
  have rest: "NDRange (squareLocalSrc input) schedule L ?out
         = Some (map (\<lambda>j. if j div L \<in> set schedule then input ! j * input ! j else ?out ! j)
                   [0..<length ?out])"
    using len Cons.prems(2) by (intro Cons.IH) simp_all
  have "NDRange (squareLocalSrc input) (gid # schedule) L outp
          = NDRange (squareLocalSrc input) schedule L ?out"
    using item by (simp add: NDRange_def)
  also note rest
  also have "map (\<lambda>j. if j div L \<in> set schedule then input ! j * input ! j else ?out ! j)
                   [0..<length ?out]
             = map (\<lambda>j. if j div L \<in> set (gid # schedule) then input ! j * input ! j else outp ! j)
                   [0..<length outp]"
    by (intro nth_equalityI) auto
  finally show ?case .
qed

lemma go_quot_pos: "0 \<le> a \<Longrightarrow> 0 < b \<Longrightarrow> go_quot a b = a div b"
  by (cases "a = 0") (simp_all add: go_quot_def)

lemma squares_nth:
  "length out = length input \<Longrightarrow>
     map (\<lambda>j. input ! j * input ! j) [0..<length out] = squares input"
  by (intro nth_equalityI) (simp_all add: squares_def)

subsection \<open>BatchedSquare\<close>

text \<open>
  Where the implementation does not hold kernels to the access flag, or the flag allows
  stores (as \<open>cl.MemWriteOnly\<close> does, with which SquareLocalSize creates its output
  buffer), the two kernels are one function.
\<close>

lemma store_flagged_permissive: "store_flagged False flag buf i v = store buf i v"
  by (simp add: store_flagged_def)

lemma batchedSquareSrc_permissive: "batchedSquareSrc False flag = squareLocalSrc"
  unfolding batchedSquareSrc_def squareLocalSrc_def store_flagged_permissive ..

lemma batchedSquareSrc_writable:
  assumes "flag \<noteq> MemReadOnly"
  shows "batchedSquareSrc enforced flag = squareLocalSrc"
proof -
  have allowed: "store_flagged enforced flag buf i v = store buf i v"
    for buf :: "32 word list" and i v
    using assms by (simp add: store_flagged_def)
  show ?thesis
    unfolding batchedSquareSrc_def squareLocalSrc_def allowed ..
qed

text \<open>
  Where it does hold kernels to the flag, the first store of a work-item into a buffer
  created \<open>cl.MemReadOnly\<close> has no defined effect.
\<close>

lemma batchedSquareSrc_enforced:
  assumes "0 < L" and "L < 2 ^ 31"
  shows "batchedSquareSrc True MemReadOnly input gid L output = None"
proof -
  have "int L < 2 ^ 31" using assms(2) by simp
  then have wl: "wrap32 (int L) = int L" by (intro wrap32_id) simp_all
  have first: "map int [0..<L] = 0 # map int [1..<L]"
    using assms(1) by (simp add: upt_conv_Cons)
  show ?thesis
    unfolding batchedSquareSrc_def Let_def wl nat_int first
    by (simp add: store_flagged_def split: option.splits)
qed

lemma enqueue_accepted_BatchedSquare_geometry:
  assumes "enqueue_accepted device (BatchedSquare_geometry elemCount lz)"
  shows "0 < lz \<and> go_rem (go_quot elemCount lz) lz = 0 \<and> lz \<le> MaxWorkGroupSize device"
  using assms
  by (cases "MaxWorkItemSizes device")
    (simp_all add: enqueue_accepted_def BatchedSquare_geometry_def multiple_per_dimension_def
      within_work_group_limit_def within_work_item_limits_def)

text \<open>
  The specified result holds of the kernel where its stores take effect: for every
  local size that the runtime accepts and that divides the problem size, and for every
  order in which the device runs the work-items, every output element is the square of
  the input element at the same index, whatever the output buffer held before. (The
  kernel indexes with 32-bit integers, so the problem size is below \<open>2^31\<close>; squares
  wrap at 32 bits.)
\<close>

lemma BatchedSquare_dispatch_squares:
  assumes len: "length output = length numbers" and small: "length numbers < 2 ^ 31"
    and accepted: "enqueue_accepted device (BatchedSquare_geometry (int (length numbers)) lz)"
    and divides: "go_rem (int (length numbers)) lz = 0"
    and sched: "schedule_of (BatchedSquare_geometry (int (length numbers)) lz) schedule"
  shows "BatchedSquare_dispatch device False numbers lz schedule output = Inr (squares numbers)"
proof -
  define N where "N = length numbers"
  define L where "L = nat lz"
  have pos: "0 < lz"
    using accepted enqueue_accepted_BatchedSquare_geometry by blast
  have L: "0 < L" "int L = lz" using pos by (simp_all add: L_def)
  have "int N mod lz = 0"
    using divides pos by (simp add: go_rem_pos N_def)
  then have "int (N mod L) = 0"
    using L(2) by (simp add: zmod_int)
  then have dvd: "N mod L = 0" by simp
  then have whole: "N div L * L = N" by (metis add.right_neutral div_mult_mod_eq)
  have "go_quot (int N) lz = int N div lz"
    using pos by (simp add: go_quot_pos)
  then have "nat (go_quot (int N) lz) = N div L"
    using L(2) by (simp add: nat_div_distrib L_def)
  then have ids: "set schedule = {0..<N div L}"
    using sched by (simp add: schedule_of_def global_ids_def BatchedSquare_geometry_def N_def)
  have fits: "(gid + 1) * L \<le> length numbers" if "gid \<in> set schedule" for gid
  proof -
    from that ids have "gid + 1 \<le> N div L" by simp
    then have "(gid + 1) * L \<le> N div L * L" by (rule mult_le_mono1)
    then show ?thesis using whole by (simp add: N_def)
  qed
  have covered: "j div L \<in> set schedule" if "j < length output" for j
  proof -
    from that len have "j < N div L * L" using whole by (simp add: N_def)
    then have "j div L < N div L" by (rule less_mult_imp_div_less)
    then show ?thesis using ids by simp
  qed
  have "NDRange (batchedSquareSrc False MemReadOnly numbers) schedule L output
          = NDRange (squareLocalSrc numbers) schedule L output"
    by (simp only: batchedSquareSrc_permissive)
  also have "\<dots> = Some (map (\<lambda>j. if j div L \<in> set schedule then numbers ! j * numbers ! j
                                   else output ! j) [0..<length output])"
    using len small L(1) fits by (rule NDRange_squareLocalSrc)
  also have "map (\<lambda>j. if j div L \<in> set schedule then numbers ! j * numbers ! j
                                   else output ! j) [0..<length output]
             = map (\<lambda>j. numbers ! j * numbers ! j) [0..<length output]"
    using covered by simp
  also have "\<dots> = squares numbers" using len by (rule squares_nth)
  finally have "NDRange (batchedSquareSrc False MemReadOnly numbers) schedule (nat lz) output
                  = Some (squares numbers)"
    by (simp only: L_def)
  then show ?thesis
    using pos accepted by (simp add: BatchedSquare_dispatch_def Let_def)
qed

lemma BatchedSquare_dispatch_squares_example:
  "enqueue_accepted gpu (BatchedSquare_geometry 16 2) \<and>
   enqueue_accepted gpu (BatchedSquare_geometry 16 4) \<and>
   BatchedSquare_dispatch gpu False (map of_nat [0..<16]) 2 [7, 3, 1, 0, 2, 6, 5, 4] (replicate 16 9)
     = Inr (map (\<lambda>i. of_nat (i * i)) [0..<16]) \<and>
   BatchedSquare_dispatch gpu False (map of_nat [0..<16]) 4 [0, 3, 2, 1] (replicate 16 7)
     = Inr (map (\<lambda>i. of_nat (i * i)) [0..<16])"
  by code_simp

lemma BatchedSquare_dispatch_independent_of_local_size:
  assumes "length output = length numbers" and "length output' = length numbers"
    and "length numbers < 2 ^ 31"
    and "enqueue_accepted device (BatchedSquare_geometry (int (length numbers)) lz)"
    and "go_rem (int (length numbers)) lz = 0"
    and "schedule_of (BatchedSquare_geometry (int (length numbers)) lz) schedule"
    and "enqueue_accepted device (BatchedSquare_geometry (int (length numbers)) lz')"
    and "go_rem (int (length numbers)) lz' = 0"
    and "schedule_of (BatchedSquare_geometry (int (length numbers)) lz') schedule'"
  shows "BatchedSquare_dispatch device False numbers lz' schedule' output'
           = BatchedSquare_dispatch device False numbers lz schedule output"
proof -
  have "BatchedSquare_dispatch device False numbers lz schedule output = Inr (squares numbers)"
    using assms(1,3,4,5,6) by (rule BatchedSquare_dispatch_squares)
  moreover have "BatchedSquare_dispatch device False numbers lz' schedule' output'
                   = Inr (squares numbers)"
    using assms(2,3,7,8,9) by (rule BatchedSquare_dispatch_squares)
  ultimately show ?thesis by simp
qed

text \<open>
  A local size that divides the problem size without dividing the global size is
  refused: 8 elements with local size 4 make a global size of 2.
\<close>

lemma BatchedSquare_dispatch_refuses_untiled:
  "go_rem 8 4 = 0 \<and> \<not> 4 > MaxWorkGroupSize gpu \<and>
   BatchedSquare_dispatch gpu False [0, 1, 2, 3, 4, 5, 6, 7] 4 [0, 1] (replicate 8 0)
     = Inl (Stopped EnqueueFailed)"
  by code_simp

text \<open>
  C5 (the code departs from it). A dispatch of BatchedSquare does not yield the squares
  for every candidate that is within the work-group limit and divides the problem size.
  On a device whose work-groups may hold 1024 items, at most 512 of them along one
  dimension, the candidate 1024 passes the driver's only test and divides the problem
  size, yet the runtime refuses the enqueue and the driver panics, whatever the input
  and the implementation. And the output buffer is created \<open>cl.MemReadOnly\<close>: where the
  implementation holds kernels to the flag, the first work-item to run has no defined
  effect, for every input, already with the local size 1.
\<close>

theorem BatchedSquare_dispatch_yields_no_squares:
  "1024 \<in> set BatchedSquare_localSizes \<and> \<not> 1024 > MaxWorkGroupSize narrow \<and>
   go_rem BatchedSquare_elemCount 1024 = 0 \<and>
   BatchedSquare_dispatch narrow enforced numbers 1024 schedule output
     = Inl (Stopped EnqueueFailed) \<and>
   BatchedSquare_dispatch cpu True numbers 1 (gid # schedule) output = Inl UndefinedBehaviour"
proof -
  have candidate: "1024 \<in> set BatchedSquare_localSizes \<and> \<not> 1024 > MaxWorkGroupSize narrow \<and>
      go_rem BatchedSquare_elemCount 1024 = 0"
    by code_simp
  have "\<not> enqueue_accepted narrow (BatchedSquare_geometry elemCount 1024)" for elemCount
    by (simp add: enqueue_accepted_def within_work_item_limits_def BatchedSquare_geometry_def
        narrow_def)
  then have refused: "BatchedSquare_dispatch narrow enforced numbers 1024 schedule output
      = Inl (Stopped EnqueueFailed)"
    by (simp add: BatchedSquare_dispatch_def Let_def)
  have "go_quot elemCount 1 = elemCount" for elemCount
    by (simp add: go_quot_def mult_sgn_abs)
  then have "enqueue_accepted cpu (BatchedSquare_geometry elemCount 1)" for elemCount
    by (simp add: enqueue_accepted_def within_work_item_limits_def within_work_group_limit_def
        multiple_per_dimension_def BatchedSquare_geometry_def cpu_def go_rem_def)
  moreover have "batchedSquareSrc True MemReadOnly numbers gid 1 output = None"
    by (rule batchedSquareSrc_enforced) simp_all
  ultimately have "BatchedSquare_dispatch cpu True numbers 1 (gid # schedule) output
      = Inl UndefinedBehaviour"
    by (simp add: BatchedSquare_dispatch_def Let_def NDRange_def)
  with candidate refused show ?thesis by blast
qed

subsection \<open>SquareLocalSize\<close>

lemma SquareLocalSize_results_partial:
  assumes "schedule_of SquareLocalSize_geometry schedule" and "length output = 64"
    and "0 < chosen" and "chosen \<le> 4"
  shows "SquareLocalSize_results chosen schedule output
         = Some (map (\<lambda>j. if j < 16 * chosen
                           then SquareLocalSize_numbers ! j * SquareLocalSize_numbers ! j
                           else output ! j) [0..<64])"
proof -
  have ids: "set schedule = {0..<16}"
    using assms(1) by (simp add: schedule_of_def global_ids_def SquareLocalSize_geometry_def)
  have len: "length output = length SquareLocalSize_numbers"
    using assms(2) by (simp add: SquareLocalSize_numbers_def)
  have small: "length SquareLocalSize_numbers < 2 ^ 31"
    by (simp add: SquareLocalSize_numbers_def)
  have fits: "(gid + 1) * chosen \<le> length SquareLocalSize_numbers" if "gid \<in> set schedule" for gid
  proof -
    from that ids have "gid + 1 \<le> 16" by simp
    then have "(gid + 1) * chosen \<le> 16 * 4" using assms(4) by (rule mult_le_mono)
    then show ?thesis by (simp add: SquareLocalSize_numbers_def)
  qed
  have member: "(j div chosen \<in> set schedule) = (j < 16 * chosen)" for j
    using ids assms(3) by (simp add: div_less_iff_less_mult mult.commute)
  have "SquareLocalSize_results chosen schedule output
          = NDRange (squareLocalSrc SquareLocalSize_numbers) schedule chosen output"
    by (simp add: SquareLocalSize_results_def)
  also have "\<dots> = Some (map (\<lambda>j. if j div chosen \<in> set schedule
                   then SquareLocalSize_numbers ! j * SquareLocalSize_numbers ! j
                   else output ! j) [0..<length output])"
    using len small assms(3) fits by (rule NDRange_squareLocalSrc)
  finally show ?thesis unfolding member assms(2) .
qed

lemma SquareLocalSize_results_local_size_4:
  assumes "schedule_of SquareLocalSize_geometry schedule" and "length output = 64"
  shows "SquareLocalSize_results 4 schedule output = Some (squares SquareLocalSize_numbers)"
proof -
  have "SquareLocalSize_results 4 schedule output
         = Some (map (\<lambda>j. if j < 16 * 4
                           then SquareLocalSize_numbers ! j * SquareLocalSize_numbers ! j
                           else output ! j) [0..<64])"
    using assms by (intro SquareLocalSize_results_partial) simp_all
  also have "map (\<lambda>j. if j < 16 * 4
                           then SquareLocalSize_numbers ! j * SquareLocalSize_numbers ! j
                           else output ! j) [0..<64]
             = squares SquareLocalSize_numbers"
    by (intro nth_equalityI) (simp_all add: squares_def SquareLocalSize_numbers_def)
  finally show ?thesis .
qed

text \<open>
  C6 (the code departs from it). SquareLocalSize enqueues 16 work-items and leaves the
  local size to the OpenCL implementation, while each work-item squares as many
  elements as the local size. Only when the implementation chooses 4 are the 64
  elements all squared (lemma \<open>SquareLocalSize_results_local_size_4\<close>). When it
  chooses 1, the elements from index 16 on are never written; when it chooses 16, the
  work-item with global id 4 reads beyond the input buffer.
\<close>

theorem SquareLocalSize_depends_on_chosen_local_size:
  "schedule_of SquareLocalSize_geometry [0..<16] \<and>
   SquareLocalSize_results 1 [0..<16] (replicate 64 0)
     = Some (map (\<lambda>i. of_nat (i * i)) [0..<16] @ replicate 48 0) \<and>
   SquareLocalSize_results 1 [0..<16] (replicate 64 0) \<noteq> Some (squares SquareLocalSize_numbers) \<and>
   SquareLocalSize_results 16 [0..<16] (replicate 64 0) = None"
  by code_simp

section \<open>Properties of the matrix-vector kernel and Vectors\<close>











lemma enqueue_accepted_Vectors_geometry:
  "enqueue_accepted device Vectors_geometry
     = (4 \<le> MaxWorkGroupSize device \<and>
        (case MaxWorkItemSizes device of [] \<Rightarrow> False | m # ms \<Rightarrow> 4 \<le> m))"
  by (cases "MaxWorkItemSizes device")
    (simp_all add: enqueue_accepted_def Vectors_geometry_def multiple_per_dimension_def
      within_work_group_limit_def within_work_item_limits_def go_rem_def go_quot_def)






end
